theory Spec2Isabelle
  imports Main "HOL-Library.AList"
begin

section \<open>Signed documents: data model\<close>

text \<open>
  The model follows \<^verbatim>\<open>vibe2025/signed_docs\<close>: \<^verbatim>\<open>model.py\<close> (the pydantic classes),
  \<^verbatim>\<open>processor.py\<close> (class \<^verbatim>\<open>DocumentProcessor\<close>) and \<^verbatim>\<open>service.py\<close>
  (class \<^verbatim>\<open>SignedDocumentsService\<close>).

  A Python \<^verbatim>\<open>str\<close> is a \<^typ>\<open>string\<close> holding its UTF-8 bytes, so that
  \<^verbatim>\<open>s.encode('utf-8')\<close> keeps the characters as they are. Values of the classes
  \<^verbatim>\<open>UUID\<close> and \<^verbatim>\<open>datetime\<close> are the type parameters \<open>'u\<close> and \<open>'t\<close>; they are
  compared with \<open>=\<close>, as \<^verbatim>\<open>==\<close> compares them in the source.
\<close>

type_synonym bytes = string

record Paragraph =
  fixed_text :: string
  placeholder :: string
  par_text :: string

record ('u, 't) Document =
  doc_id :: 'u
  parent_document_id :: "'u option"
  author_id :: int
  addressee_id :: int
  created_at :: 't
  content :: "Paragraph list"

record ('u, 't) Signature =
  document_id :: 'u
  json_version :: string
  signator_id :: int
  public_key :: string
  signature :: string
  signed_at :: 't

text \<open>Exceptions are values; a function that can raise returns \<open>exn + 'a\<close>.\<close>

datatype exn =
    ValueError
  | TypeError
  | AttributeError
  | KeyError
  | InvalidSignature
  | UnsupportedAlgorithm
  | FileNotFoundError
  | IsADirectoryError
  | JSONDecodeError
  | ValidationError

definition encode_utf8 :: "string \<Rightarrow> bytes" where
  "encode_utf8 s = s"

section \<open>Hexadecimal text: \<^verbatim>\<open>bytes.hex\<close> and \<^verbatim>\<open>bytes.fromhex\<close>\<close>

definition hexdigits :: string where
  "hexdigits = ''0123456789abcdef''"

definition hex_of_byte :: "char \<Rightarrow> string" where
  "hex_of_byte b = [hexdigits ! ((of_char b :: nat) div 16), hexdigits ! ((of_char b :: nat) mod 16)]"

definition hex :: "bytes \<Rightarrow> string" where
  "hex bs = concat (map hex_of_byte bs)"

text \<open>
  \<^verbatim>\<open>bytes.fromhex\<close> skips ASCII whitespace between bytes, reads two hexadecimal digits
  of either case for each byte, and raises \<^verbatim>\<open>ValueError\<close> on anything else.
\<close>

definition isspace :: "char \<Rightarrow> bool" where
  "isspace c = ((of_char c :: nat) = 32 \<or> (9 \<le> (of_char c :: nat) \<and> (of_char c :: nat) \<le> 13))"

definition digit_value :: "char \<Rightarrow> nat option" where
  "digit_value c =
     (let n = (of_char c :: nat) in
      if 48 \<le> n \<and> n \<le> 57 then Some (n - 48)
      else if 97 \<le> n \<and> n \<le> 102 then Some (n - 87)
      else if 65 \<le> n \<and> n \<le> 70 then Some (n - 55)
      else None)"

fun fromhex :: "string \<Rightarrow> exn + bytes" where
  "fromhex [] = Inr []"
| "fromhex [c] = (if isspace c then Inr [] else Inl ValueError)"
| "fromhex (c # d # cs) =
     (if isspace c then fromhex (d # cs)
      else case (digit_value c, digit_value d) of
             (Some hi, Some lo) \<Rightarrow>
               (case fromhex cs of
                  Inl e \<Rightarrow> Inl e
                | Inr bs \<Rightarrow> Inr (char_of (hi * 16 + lo) # bs))
           | _ \<Rightarrow> Inl ValueError)"

section \<open>The \<^verbatim>\<open>cryptography\<close> package\<close>

text \<open>
  The package is not part of the repository. Its operations are the fields of a record
  that every function of the model takes as its first argument: \<open>'sk\<close> are the private
  key objects and \<open>'pk\<close> the public key objects, of any scheme the PEM loaders accept.
  \<open>public_bytes\<close> is \<^verbatim>\<open>public_bytes(PEM, SubjectPublicKeyInfo)\<close> decoded to text,
  \<open>rsa_pss_sign\<close> and \<open>rsa_pss_verify\<close> are the RSA methods \<^verbatim>\<open>sign\<close> and
  \<^verbatim>\<open>verify\<close> with PSS padding (MGF1, SHA-256, maximal salt length) and SHA-256; the
  salt that signing draws is an argument, and verification answers \<open>False\<close> where the
  package raises \<^verbatim>\<open>InvalidSignature\<close>.
\<close>

datatype key_class = RSA | DSA | EllipticCurve | Ed25519 | Ed448 | X25519 | X448 | DH

record ('sk, 'pk) crypto =
  generate_private_key :: "nat \<Rightarrow> 'sk"
  sk_class :: "'sk \<Rightarrow> key_class"
  pk_class :: "'pk \<Rightarrow> key_class"
  public_key_of :: "'sk \<Rightarrow> 'pk"
  public_bytes :: "'pk \<Rightarrow> string"
  load_pem_public_key :: "bytes \<Rightarrow> exn + 'pk"
  load_pem_private_key :: "bytes \<Rightarrow> bytes option \<Rightarrow> exn + 'sk"
  rsa_pss_sign :: "'sk \<Rightarrow> bytes \<Rightarrow> bytes \<Rightarrow> bytes"
  rsa_pss_verify :: "'pk \<Rightarrow> bytes \<Rightarrow> bytes \<Rightarrow> bool"

text \<open>
  The source calls \<^verbatim>\<open>key.sign(message, padding, algorithm)\<close> and
  \<^verbatim>\<open>key.verify(signature, message, padding, algorithm)\<close> on whatever object the loader
  returned. Only the RSA classes have methods of that shape: the DSA, elliptic-curve and
  Edwards-curve methods take fewer arguments (\<^verbatim>\<open>TypeError\<close>), and the key-exchange
  classes have no such method (\<^verbatim>\<open>AttributeError\<close>).
\<close>

definition signing_class :: "key_class \<Rightarrow> bool" where
  "signing_class c = (c = RSA \<or> c = DSA \<or> c = EllipticCurve \<or> c = Ed25519 \<or> c = Ed448)"


definition key_verify :: "('sk, 'pk) crypto \<Rightarrow> 'pk \<Rightarrow> bytes \<Rightarrow> bytes \<Rightarrow> exn + unit" where
  "key_verify L pk signature_bytes message =
     (if pk_class L pk = RSA then
        (if rsa_pss_verify L pk signature_bytes message then Inr () else Inl InvalidSignature)
      else if signing_class (pk_class L pk) then Inl TypeError
      else Inl AttributeError)"

section \<open>pydantic and \<^verbatim>\<open>json\<close>\<close>

text \<open>
  \<^verbatim>\<open>model_dump_json(indent=None)\<close> writes a model as one line of JSON: the fields in
  the order of their declaration, no space after \<open>,\<close> and \<open>:\<close>, an integer in decimal,
  \<^verbatim>\<open>None\<close> as \<open>null\<close>, a UUID and a datetime as JSON strings. A string is put in double
  quotes with the double quote, the backslash and the control characters below
  \<open>0x20\<close> escaped and every other character as it is.
\<close>

datatype json =
    JNull
  | JBool bool
  | JInt int
  | JStr string
  | JList "json list"
  | JDict "(string \<times> json) list"

definition escape_char :: "char \<Rightarrow> string" where
  "escape_char c =
     (if c = CHR 0x22 then [CHR 0x5C, CHR 0x22]
      else if c = CHR 0x5C then [CHR 0x5C, CHR 0x5C]
      else if c = CHR 0x08 then [CHR 0x5C, CHR ''b'']
      else if c = CHR 0x0C then [CHR 0x5C, CHR ''f'']
      else if c = CHR 0x0A then [CHR 0x5C, CHR ''n'']
      else if c = CHR 0x0D then [CHR 0x5C, CHR ''r'']
      else if c = CHR 0x09 then [CHR 0x5C, CHR ''t'']
      else if (of_char c :: nat) < 32 then
        [CHR 0x5C, CHR ''u'', CHR ''0'', CHR ''0'',
         hexdigits ! ((of_char c :: nat) div 16), hexdigits ! ((of_char c :: nat) mod 16)]
      else [c])"

definition json_string :: "string \<Rightarrow> string" where
  "json_string s = CHR 0x22 # concat (map escape_char s) @ [CHR 0x22]"

fun decimal :: "nat \<Rightarrow> string" where
  "decimal n =
     (if n < 10 then [hexdigits ! n] else decimal (n div 10) @ [hexdigits ! (n mod 10)])"

declare decimal.simps [simp del]

definition json_int :: "int \<Rightarrow> string" where
  "json_int i = (if i < 0 then CHR ''-'' # decimal (nat (- i)) else decimal (nat i))"

fun join :: "string \<Rightarrow> string list \<Rightarrow> string" where
  "join sep [] = []"
| "join sep [x] = x"
| "join sep (x # y # ys) = x @ sep @ join sep (y # ys)"

definition json_member :: "string \<Rightarrow> string \<Rightarrow> string" where
  "json_member name v = json_string name @ '':'' @ v"

definition json_object :: "string list \<Rightarrow> string" where
  "json_object members = ''{'' @ join '','' members @ ''}''"

definition json_array :: "string list \<Rightarrow> string" where
  "json_array items = ''['' @ join '','' items @ '']''"

text \<open>
  The rest of the two libraries is taken as a record of operations: \<open>uuid_str\<close> and
  \<open>isoformat\<close> are the texts pydantic writes for a UUID and for a datetime,
  \<open>json_loads\<close> is \<^verbatim>\<open>json.loads\<close>, \<open>json_dumps\<close> is
  \<^verbatim>\<open>json.dumps(data, indent=2, default=str)\<close>, and \<open>validate_Document\<close> and
  \<open>validate_Signature\<close> are the constructors \<^verbatim>\<open>Document(**kwargs)\<close> and
  \<^verbatim>\<open>Signature(**kwargs)\<close> applied to the items of a dictionary.
\<close>

record ('u, 't) codec =
  uuid_str :: "'u \<Rightarrow> string"
  isoformat :: "'t \<Rightarrow> string"
  json_loads :: "string \<Rightarrow> exn + json"
  json_dumps :: "json \<Rightarrow> string"
  validate_Document :: "(string \<times> json) list \<Rightarrow> exn + ('u, 't) Document"
  validate_Signature :: "(string \<times> json) list \<Rightarrow> exn + ('u, 't) Signature"

definition Paragraph_dump_json :: "Paragraph \<Rightarrow> string" where
  "Paragraph_dump_json p =
     json_object
       [json_member ''fixed_text'' (json_string (fixed_text p)),
        json_member ''placeholder'' (json_string (placeholder p)),
        json_member ''text'' (json_string (par_text p))]"

definition model_dump_json :: "('u, 't) codec \<Rightarrow> ('u, 't) Document \<Rightarrow> string" where
  "model_dump_json P d =
     json_object
       [json_member ''id'' (json_string (uuid_str P (doc_id d))),
        json_member ''parent_document_id''
          (case parent_document_id d of
             None \<Rightarrow> ''null''
           | Some u \<Rightarrow> json_string (uuid_str P u)),
        json_member ''author_id'' (json_int (author_id d)),
        json_member ''addressee_id'' (json_int (addressee_id d)),
        json_member ''created_at'' (json_string (isoformat P (created_at d))),
        json_member ''content'' (json_array (map Paragraph_dump_json (content d)))]"

definition Signature_dump_json :: "('u, 't) codec \<Rightarrow> ('u, 't) Signature \<Rightarrow> string" where
  "Signature_dump_json P s =
     json_object
       [json_member ''document_id'' (json_string (uuid_str P (document_id s))),
        json_member ''json_version'' (json_string (json_version s)),
        json_member ''signator_id'' (json_int (signator_id s)),
        json_member ''public_key'' (json_string (public_key s)),
        json_member ''signature'' (json_string (signature s)),
        json_member ''signed_at'' (json_string (isoformat P (signed_at s)))]"



section \<open>Files\<close>






section \<open>\<^verbatim>\<open>DocumentProcessor\<close> (\<^verbatim>\<open>processor.py\<close>)\<close>






definition document_to_canonical_json :: "('u, 't) codec \<Rightarrow> ('u, 't) Document \<Rightarrow> string" where
  "document_to_canonical_json P document = model_dump_json P document"


text \<open>
  \<^verbatim>\<open>verify_signature\<close>: the body of the \<^verbatim>\<open>try\<close> first, then the two handlers, which
  turn every exception into \<open>False\<close>.
\<close>

definition verify_signature_try ::
  "('sk, 'pk) crypto \<Rightarrow> ('u, 't) codec \<Rightarrow> ('u, 't) Document \<Rightarrow> ('u, 't) Signature \<Rightarrow> exn + bool" where
  "verify_signature_try L P document sg =
     (if doc_id document \<noteq> document_id sg then Inr False
      else case load_pem_public_key L (encode_utf8 (public_key sg)) of
             Inl e \<Rightarrow> Inl e
           | Inr pk \<Rightarrow>
               (let current_json = document_to_canonical_json P document
                in if current_json \<noteq> json_version sg then Inr False
                   else (let message = encode_utf8 (json_version sg)
                         in case fromhex (signature sg) of
                              Inl e \<Rightarrow> Inl e
                            | Inr signature_bytes \<Rightarrow>
                                (case key_verify L pk signature_bytes message of
                                   Inl e \<Rightarrow> Inl e
                                 | Inr _ \<Rightarrow> Inr True))))"

definition verify_signature ::
  "('sk, 'pk) crypto \<Rightarrow> ('u, 't) codec \<Rightarrow> ('u, 't) Document \<Rightarrow> ('u, 't) Signature \<Rightarrow> bool" where
  "verify_signature L P document sg =
     (case verify_signature_try L P document sg of
        Inr b \<Rightarrow> b
      | Inl InvalidSignature \<Rightarrow> False
      | Inl _ \<Rightarrow> False)"



section \<open>\<^verbatim>\<open>SignedDocumentsService\<close> (\<^verbatim>\<open>service.py\<close>)\<close>

text \<open>
  The dictionary \<^verbatim>\<open>trusted_keys\<close> is an association list in insertion order: an
  assignment to a key that is present replaces its value in place, one to a new key
  appends it.
\<close>

record SignedDocumentsService =
  trusted_keys :: "(int \<times> string) list"

definition new_service :: SignedDocumentsService where
  "new_service = \<lparr>trusted_keys = []\<rparr>"

definition add_trusted_key ::
  "('sk, 'pk) crypto \<Rightarrow> SignedDocumentsService \<Rightarrow> int \<Rightarrow> string
     \<Rightarrow> (exn + unit) \<times> SignedDocumentsService" where
  "add_trusted_key L self signer_id public_key_pem =
     (case load_pem_public_key L (encode_utf8 public_key_pem) of
        Inl e \<Rightarrow> (Inl ValueError, self)
      | Inr _ \<Rightarrow>
          (Inr (), self\<lparr>trusted_keys := AList.update signer_id public_key_pem (trusted_keys self)\<rparr>))"

definition remove_trusted_key ::
  "SignedDocumentsService \<Rightarrow> int \<Rightarrow> bool \<times> SignedDocumentsService" where
  "remove_trusted_key self signer_id =
     (if signer_id \<in> set (map fst (trusted_keys self))
      then (True, self\<lparr>trusted_keys := AList.delete signer_id (trusted_keys self)\<rparr>)
      else (False, self))"

definition get_trusted_key :: "SignedDocumentsService \<Rightarrow> int \<Rightarrow> string option" where
  "get_trusted_key self signer_id = map_of (trusted_keys self) signer_id"

definition list_trusted_signers :: "SignedDocumentsService \<Rightarrow> int list" where
  "list_trusted_signers self = map fst (trusted_keys self)"

definition verify_document_signature_try ::
  "('sk, 'pk) crypto \<Rightarrow> ('u, 't) codec \<Rightarrow> SignedDocumentsService \<Rightarrow> ('u, 't) Document
     \<Rightarrow> ('u, 't) Signature \<Rightarrow> exn + bool" where
  "verify_document_signature_try L P self document sg =
     (if signator_id sg \<notin> set (map fst (trusted_keys self)) then Inr False
      else if doc_id document \<noteq> document_id sg then Inr False
      else case map_of (trusted_keys self) (signator_id sg) of
             None \<Rightarrow> Inl KeyError
           | Some trusted_key_pem \<Rightarrow>
              (if public_key sg \<noteq> trusted_key_pem then Inr False
               else (case load_pem_public_key L (encode_utf8 trusted_key_pem) of
                      Inl e \<Rightarrow> Inl e
                    | Inr pk \<Rightarrow>
                        (let current_json = model_dump_json P document
                         in if current_json \<noteq> json_version sg then Inr False
                            else (let message = encode_utf8 (json_version sg)
                                  in case fromhex (signature sg) of
                                       Inl e \<Rightarrow> Inl e
                                     | Inr signature_bytes \<Rightarrow>
                                         (case key_verify L pk signature_bytes message of
                                            Inl e \<Rightarrow> Inl e
                                          | Inr _ \<Rightarrow> Inr True))))))"

definition verify_document_signature ::
  "('sk, 'pk) crypto \<Rightarrow> ('u, 't) codec \<Rightarrow> SignedDocumentsService \<Rightarrow> ('u, 't) Document
     \<Rightarrow> ('u, 't) Signature \<Rightarrow> bool" where
  "verify_document_signature L P self document sg =
     (case verify_document_signature_try L P self document sg of
        Inr b \<Rightarrow> b
      | Inl InvalidSignature \<Rightarrow> False
      | Inl _ \<Rightarrow> False)"

section \<open>The reachable states of the service\<close>

inductive reachable :: "('sk, 'pk) crypto \<Rightarrow> SignedDocumentsService \<Rightarrow> bool" for L where
  reachable_new: "reachable L new_service"
| reachable_add: "reachable L s \<Longrightarrow> reachable L (snd (add_trusted_key L s signer_id pem))"
| reachable_remove: "reachable L s \<Longrightarrow> reachable L (snd (remove_trusted_key s signer_id))"

section \<open>A small instance of the libraries\<close>

text \<open>
  To run the model on concrete inputs the library operations need values. In this
  instance a key object is its class and a number, the PEM text of a public key names
  the class and repeats a letter, and a signature is the salt followed by one check
  character. A UUID and a datetime are given by the text pydantic writes for them.
\<close>

type_synonym demo_key = "key_class \<times> nat"

definition demo_public_bytes :: "demo_key \<Rightarrow> string" where
  "demo_public_bytes k =
     (if fst k = RSA then ''RSA:'' else ''ED25519:'') @ replicate (snd k) (CHR ''k'')"

definition demo_load_pem :: "bytes \<Rightarrow> exn + demo_key" where
  "demo_load_pem pem =
     (if take 4 pem = ''RSA:'' then Inr (RSA, length (drop 4 pem))
      else if take 8 pem = ''ED25519:'' then Inr (Ed25519, length (drop 8 pem))
      else Inl ValueError)"

definition demo_sign :: "demo_key \<Rightarrow> bytes \<Rightarrow> bytes \<Rightarrow> bytes" where
  "demo_sign k salt message = salt @ [char_of (snd k + length message)]"

definition demo_verify :: "demo_key \<Rightarrow> bytes \<Rightarrow> bytes \<Rightarrow> bool" where
  "demo_verify k signature_bytes message =
     (signature_bytes \<noteq> [] \<and> last signature_bytes = char_of (snd k + length message))"

definition demo_crypto :: "(demo_key, demo_key) crypto" where
  "demo_crypto =
     \<lparr>generate_private_key = (\<lambda>n. (RSA, n)),
      sk_class = fst,
      pk_class = fst,
      public_key_of = (\<lambda>k. k),
      public_bytes = demo_public_bytes,
      load_pem_public_key = demo_load_pem,
      load_pem_private_key = (\<lambda>pem password. demo_load_pem pem),
      rsa_pss_sign = demo_sign,
      rsa_pss_verify = demo_verify\<rparr>"

definition demo_document :: "(string, string) Document" where
  "demo_document =
     \<lparr>doc_id = ''123e4567-e89b-12d3-a456-426614174000'',
      parent_document_id = None,
      author_id = 1,
      addressee_id = 2,
      created_at = ''2025-01-01T12:00:00'',
      content = [\<lparr>fixed_text = ''Dear'', placeholder = ''name'', par_text = ''John Doe''\<rparr>]\<rparr>"

definition demo_text :: "(string, string) codec" where
  "demo_text =
     \<lparr>uuid_str = (\<lambda>u. u),
      isoformat = (\<lambda>t. t),
      json_loads = (\<lambda>s. Inl JSONDecodeError),
      json_dumps = (\<lambda>v. []),
      validate_Document = (\<lambda>items. Inl ValidationError),
      validate_Signature = (\<lambda>items. Inl ValidationError)\<rparr>"


definition demo_signature :: "(string, string) Signature" where
  "demo_signature =
     \<lparr>document_id = doc_id demo_document,
      json_version = model_dump_json demo_text demo_document,
      signator_id = 42,
      public_key = ''RSA:kkkkkkk'',
      signature = hex (demo_sign (RSA, 7) ''salt'' (model_dump_json demo_text demo_document)),
      signed_at = ''2025-01-02T08:30:00''\<rparr>"

definition demo_service :: SignedDocumentsService where
  "demo_service = snd (add_trusted_key demo_crypto new_service 42 ''RSA:kkkkkkk'')"


text \<open>
  The instance of \<^verbatim>\<open>json\<close> and of the two constructors knows the demo document and
  its signature only; the text of the pair file is written without indentation.
\<close>

definition demo_document_json :: json where
  "demo_document_json =
     JDict
       [(''id'', JStr ''123e4567-e89b-12d3-a456-426614174000''),
        (''parent_document_id'', JNull),
        (''author_id'', JInt 1),
        (''addressee_id'', JInt 2),
        (''created_at'', JStr ''2025-01-01T12:00:00''),
        (''content'',
           JList [JDict [(''fixed_text'', JStr ''Dear''), (''placeholder'', JStr ''name''),
                         (''text'', JStr ''John Doe'')]])]"

definition demo_signature_json :: json where
  "demo_signature_json =
     JDict
       [(''document_id'', JStr ''123e4567-e89b-12d3-a456-426614174000''),
        (''json_version'', JStr (json_version demo_signature)),
        (''signator_id'', JInt 42),
        (''public_key'', JStr ''RSA:kkkkkkk''),
        (''signature'', JStr (signature demo_signature)),
        (''signed_at'', JStr ''2025-01-02T08:30:00'')]"

definition demo_pair_json :: json where
  "demo_pair_json = JDict [(''document'', demo_document_json), (''signature'', demo_signature_json)]"

definition demo_pair_text :: string where
  "demo_pair_text =
     json_object
       [json_member ''document'' (model_dump_json demo_text demo_document),
        json_member ''signature'' (Signature_dump_json demo_text demo_signature)]"

definition demo_json_loads :: "string \<Rightarrow> exn + json" where
  "demo_json_loads s =
     (if s = model_dump_json demo_text demo_document then Inr demo_document_json
      else if s = Signature_dump_json demo_text demo_signature then Inr demo_signature_json
      else if s = demo_pair_text then Inr demo_pair_json
      else Inl JSONDecodeError)"

definition demo_json_dumps :: "json \<Rightarrow> string" where
  "demo_json_dumps v = (if v = demo_pair_json then demo_pair_text else ''null'')"

definition demo_validate_Document ::
  "(string \<times> json) list \<Rightarrow> exn + (string, string) Document" where
  "demo_validate_Document items =
     (if JDict items = demo_document_json then Inr demo_document else Inl ValidationError)"

definition demo_validate_Signature ::
  "(string \<times> json) list \<Rightarrow> exn + (string, string) Signature" where
  "demo_validate_Signature items =
     (if JDict items = demo_signature_json then Inr demo_signature else Inl ValidationError)"

definition demo_codec :: "(string, string) codec" where
  "demo_codec =
     demo_text
       \<lparr>json_loads := demo_json_loads,
        json_dumps := demo_json_dumps,
        validate_Document := demo_validate_Document,
        validate_Signature := demo_validate_Signature\<rparr>"

section \<open>Character classes of the decimal rendering\<close>



section \<open>Hexadecimal text: the round trip\<close>

lemma below_16_cases:
  "n < 16 \<Longrightarrow> n \<in> {0, 1, 2, 3, 4, 5, 6, 7, 8, 9, 10, 11, 12, 13, 14, 15::nat}"
  by (simp; arith)

lemma hexdigit_value: "n < 16 \<Longrightarrow> digit_value (hexdigits ! n) = Some n"
  by (drule below_16_cases) (auto simp add: hexdigits_def digit_value_def)

lemma hexdigit_not_space: "n < 16 \<Longrightarrow> \<not> isspace (hexdigits ! n)"
  by (drule below_16_cases) (auto simp add: hexdigits_def isspace_def)

lemma fromhex_hex: "fromhex (hex bs) = Inr bs"
proof (induction bs)
  case Nil
  show ?case by (simp add: hex_def)
next
  case (Cons b bs)
  have lt: "(of_char b :: nat) div 16 < 16" "(of_char b :: nat) mod 16 < 16"
    using nat_of_char_less_256 [of b] by (simp_all add: less_mult_imp_div_less)
  from Cons show ?case
    by (simp add: hex_def hex_of_byte_def hexdigit_value hexdigit_not_space lt)
qed

section \<open>What the two verifications compute\<close>

lemma verify_signature_iff:
  "verify_signature L P d a \<longleftrightarrow>
     doc_id d = document_id a \<and>
     (\<exists>pk sb. load_pem_public_key L (encode_utf8 (public_key a)) = Inr pk \<and>
        pk_class L pk = RSA \<and>
        document_to_canonical_json P d = json_version a \<and>
        fromhex (signature a) = Inr sb \<and>
        rsa_pss_verify L pk sb (encode_utf8 (json_version a)))"
  by (auto simp add: verify_signature_def verify_signature_try_def key_verify_def Let_def
      split: sum.splits exn.splits if_splits)

lemma in_keys_iff: "k \<in> set (map fst kvs) \<longleftrightarrow> map_of kvs k \<noteq> None"
  by (simp add: map_of_eq_None_iff)

lemma verify_document_signature_iff:
  "verify_document_signature L P svc d a \<longleftrightarrow>
     get_trusted_key svc (signator_id a) = Some (public_key a) \<and> verify_signature L P d a"
  by (auto simp add: verify_document_signature_def verify_document_signature_try_def
      verify_signature_iff get_trusted_key_def document_to_canonical_json_def
      key_verify_def Let_def in_keys_iff simp del: set_map
      split: sum.splits exn.splits if_splits option.splits)

lemma demo_signature_verifies: "verify_signature demo_crypto demo_text demo_document demo_signature"
  by (simp add: verify_signature_iff demo_signature_def demo_crypto_def demo_load_pem_def
      encode_utf8_def document_to_canonical_json_def fromhex_hex demo_verify_def demo_sign_def)

lemma demo_service_keys: "trusted_keys demo_service = [(42, ''RSA:kkkkkkk'')]"
  by (simp add: demo_service_def add_trusted_key_def demo_crypto_def demo_load_pem_def
      encode_utf8_def new_service_def)

lemma demo_trusted:
  "verify_document_signature demo_crypto demo_text demo_service demo_document demo_signature"
  using demo_signature_verifies
  by (simp add: verify_document_signature_iff get_trusted_key_def demo_service_keys
      demo_signature_def)


section \<open>The canonical JSON determines the document\<close>























section \<open>Facts about the service and the demo instance\<close>

lemma reachable_distinct: "reachable L svc \<Longrightarrow> distinct (map fst (trusted_keys svc))"
proof (induction rule: reachable.induct)
  case reachable_new
  show ?case by (simp add: new_service_def)
next
  case (reachable_add s signer_id pem)
  then show ?case
    by (simp add: add_trusted_key_def AList.distinct_update split: sum.splits)
next
  case (reachable_remove s signer_id)
  then show ?case
    by (simp add: remove_trusted_key_def AList.distinct_delete)
qed

lemma model_dump_json_codec [simp]:
  "model_dump_json demo_codec d = model_dump_json demo_text d"
  by (simp add: model_dump_json_def demo_codec_def cong: option.case_cong)

lemma Signature_dump_json_codec [simp]:
  "Signature_dump_json demo_codec s = Signature_dump_json demo_text s"
  by (simp add: Signature_dump_json_def demo_codec_def)


section \<open>The claims\<close>





text \<open>
  Claim C3. Bare verification is fail-closed: an exception raised in the body of
  \<open>verify_signature\<close> gives \<open>False\<close>. So a public key text that does not parse, a
  signature text that is not hexadecimal, a document id other than the artifact's, and a
  public key of a scheme other than RSA all give \<open>False\<close>; the empty signature text
  gives \<open>False\<close> as soon as the library's RSA verification rejects the empty
  signature.
\<close>

theorem verify_signature_fail_closed:
  "(\<forall>e. verify_signature_try L P d a = Inl e \<longrightarrow> verify_signature L P d a = False) \<and>
   (\<forall>e. load_pem_public_key L (encode_utf8 (public_key a)) = Inl e
      \<longrightarrow> \<not> verify_signature L P d a) \<and>
   (\<forall>e. fromhex (signature a) = Inl e \<longrightarrow> \<not> verify_signature L P d a) \<and>
   (doc_id d \<noteq> document_id a \<longrightarrow> \<not> verify_signature L P d a) \<and>
   (\<forall>pk. load_pem_public_key L (encode_utf8 (public_key a)) = Inr pk \<and> pk_class L pk \<noteq> RSA
      \<longrightarrow> \<not> verify_signature L P d a) \<and>
   (signature a = [] \<and> (\<forall>pk m. \<not> rsa_pss_verify L pk [] m) \<longrightarrow> \<not> verify_signature L P d a)"
  apply (intro conjI allI impI)
       apply (simp add: verify_signature_def split: exn.splits)
      apply (simp add: verify_signature_iff)
     apply (simp add: verify_signature_iff)
    apply (simp add: verify_signature_iff)
   apply (auto simp add: verify_signature_iff)
  done

theorem verify_signature_fail_closed_witness:
  "verify_signature_try demo_crypto demo_text demo_document
     (demo_signature\<lparr>public_key := ''no key''\<rparr>) = Inl ValueError \<and>
   \<not> verify_signature demo_crypto demo_text demo_document
       (demo_signature\<lparr>public_key := ''no key''\<rparr>) \<and>
   fromhex ''zz'' = Inl ValueError \<and>
   \<not> verify_signature demo_crypto demo_text demo_document (demo_signature\<lparr>signature := ''zz''\<rparr>) \<and>
   doc_id demo_document \<noteq> ''other'' \<and>
   \<not> verify_signature demo_crypto demo_text demo_document
       (demo_signature\<lparr>document_id := ''other''\<rparr>) \<and>
   load_pem_public_key demo_crypto (encode_utf8 ''ED25519:kkk'') = Inr (Ed25519, 3) \<and>
   \<not> verify_signature demo_crypto demo_text demo_document
       (demo_signature\<lparr>public_key := ''ED25519:kkk''\<rparr>) \<and>
   (\<forall>pk m. \<not> rsa_pss_verify demo_crypto pk [] m) \<and>
   \<not> verify_signature demo_crypto demo_text demo_document (demo_signature\<lparr>signature := []\<rparr>)"
  using
    verify_signature_fail_closed
      [of demo_crypto demo_text demo_document "demo_signature\<lparr>public_key := ''no key''\<rparr>"]
    verify_signature_fail_closed
      [of demo_crypto demo_text demo_document "demo_signature\<lparr>signature := ''zz''\<rparr>"]
    verify_signature_fail_closed
      [of demo_crypto demo_text demo_document "demo_signature\<lparr>document_id := ''other''\<rparr>"]
    verify_signature_fail_closed
      [of demo_crypto demo_text demo_document "demo_signature\<lparr>public_key := ''ED25519:kkk''\<rparr>"]
    verify_signature_fail_closed
      [of demo_crypto demo_text demo_document "demo_signature\<lparr>signature := []\<rparr>"]
  by (simp add: verify_signature_try_def demo_signature_def demo_document_def demo_crypto_def
      demo_load_pem_def encode_utf8_def demo_verify_def isspace_def digit_value_def)

text \<open>
  Claim C4. Registry-backed verification is false whenever the artifact's
  \<open>signator_id\<close> is not in the registry, also when bare verification is true; and it is
  true exactly when bare verification is true and the key registered for that
  \<open>signator_id\<close> is the very string \<open>public_key\<close> of the artifact. A registered text
  that differs from it gives \<open>False\<close> even if it loads as the same key.
\<close>

theorem registry_gating:
  "(signator_id a \<notin> set (list_trusted_signers svc)
      \<longrightarrow> \<not> verify_document_signature L P svc d a) \<and>
   (verify_document_signature L P svc d a \<longleftrightarrow>
      get_trusted_key svc (signator_id a) = Some (public_key a) \<and> verify_signature L P d a)"
  by (auto simp add: verify_document_signature_iff list_trusted_signers_def get_trusted_key_def
      in_keys_iff simp del: set_map)

theorem registry_gating_witness:
  "signator_id demo_signature \<notin> set (list_trusted_signers new_service) \<and>
   verify_signature demo_crypto demo_text demo_document demo_signature \<and>
   \<not> verify_document_signature demo_crypto demo_text new_service demo_document demo_signature \<and>
   load_pem_public_key demo_crypto (encode_utf8 ''RSA:KKKKKKK'')
     = load_pem_public_key demo_crypto (encode_utf8 (public_key demo_signature)) \<and>
   \<not> verify_document_signature demo_crypto demo_text \<lparr>trusted_keys = [(42, ''RSA:KKKKKKK'')]\<rparr>
       demo_document demo_signature \<and>
   verify_document_signature demo_crypto demo_text demo_service demo_document demo_signature"
  using
    registry_gating [of demo_signature new_service demo_crypto demo_text demo_document]
    registry_gating
      [of demo_signature "\<lparr>trusted_keys = [(42, ''RSA:KKKKKKK'')]\<rparr>" demo_crypto demo_text
        demo_document]
    demo_signature_verifies demo_trusted
  by (simp add: list_trusted_signers_def new_service_def get_trusted_key_def demo_signature_def
      demo_crypto_def demo_load_pem_def encode_utf8_def)








text \<open>
  Claim C8. Bare verification does not read \<open>signator_id\<close> or \<open>signed_at\<close>: replacing
  either field of the artifact by any other value leaves the result of
  \<open>verify_signature\<close> unchanged. It takes no registry as an argument.
\<close>

theorem bare_verification_ignores_signator_and_time:
  "verify_signature L P d (a\<lparr>signator_id := x\<rparr>) = verify_signature L P d a \<and>
   verify_signature L P d (a\<lparr>signed_at := t\<rparr>) = verify_signature L P d a"
  by (simp add: verify_signature_iff)

text \<open>
  Claim C9. \<open>add_trusted_key\<close> raises \<^verbatim>\<open>ValueError\<close> and leaves the service as it was
  when the PEM text does not load as a public key; when it loads, the text is stored
  under the signer id, replacing what was stored there, and the other signers keep their
  keys. In every state the service can reach, each signer id occurs once.
\<close>

theorem add_trusted_key_contract:
  "(\<forall>e. load_pem_public_key L (encode_utf8 pem) = Inl e
      \<longrightarrow> add_trusted_key L svc signer_id pem = (Inl ValueError, svc)) \<and>
   (\<forall>pk. load_pem_public_key L (encode_utf8 pem) = Inr pk
      \<longrightarrow> fst (add_trusted_key L svc signer_id pem) = Inr () \<and>
          get_trusted_key (snd (add_trusted_key L svc signer_id pem)) signer_id = Some pem \<and>
          (\<forall>other. other \<noteq> signer_id \<longrightarrow>
             get_trusted_key (snd (add_trusted_key L svc signer_id pem)) other
               = get_trusted_key svc other)) \<and>
   (reachable L svc \<longrightarrow> distinct (list_trusted_signers svc))"
  by (auto simp add: add_trusted_key_def get_trusted_key_def list_trusted_signers_def
      AList.update_conv' dest: reachable_distinct)

theorem add_trusted_key_contract_witness:
  "load_pem_public_key demo_crypto (encode_utf8 ''no key'') = Inl ValueError \<and>
   add_trusted_key demo_crypto demo_service 42 ''no key'' = (Inl ValueError, demo_service) \<and>
   load_pem_public_key demo_crypto (encode_utf8 ''RSA:kkk'') = Inr (RSA, 3) \<and>
   add_trusted_key demo_crypto demo_service 42 ''RSA:kkk''
     = (Inr (), \<lparr>trusted_keys = [(42, ''RSA:kkk'')]\<rparr>) \<and>
   get_trusted_key (snd (add_trusted_key demo_crypto demo_service 5 ''RSA:kkk'')) 42
     = get_trusted_key demo_service 42 \<and>
   reachable demo_crypto demo_service \<and>
   distinct (list_trusted_signers demo_service)"
  using
    add_trusted_key_contract [of demo_crypto "''no key''" demo_service 42]
    add_trusted_key_contract [of demo_crypto "''RSA:kkk''" demo_service 42]
    add_trusted_key_contract [of demo_crypto "''RSA:kkk''" demo_service 5]
    reachable_add [OF reachable_new, of demo_crypto 42 "''RSA:kkkkkkk''"]
  by (simp add: demo_service_def [symmetric])
    (simp add: add_trusted_key_def demo_crypto_def demo_load_pem_def encode_utf8_def
      demo_service_keys list_trusted_signers_def get_trusted_key_def)



end
